theory Spec2Isabelle
  imports Main "HOL-Library.Word"
begin

section \<open>Values shared by the packages\<close>

text \<open>
  Go's \<^verbatim>\<open>int\<close> (on a 64-bit platform) and \<^verbatim>\<open>int64\<close> are 64-bit words; the
  conversions \<^verbatim>\<open>int64(x)\<close> and \<^verbatim>\<open>int(x)\<close> between them are signed casts.
  A \<^verbatim>\<open>time.Time\<close> is an instant on the nanosecond time line, counted from Go's zero
  Time, so that the zero value \<^verbatim>\<open>time.Time{}\<close> is the instant 0. A
  \<^verbatim>\<open>time.Duration\<close> is an \<^verbatim>\<open>int64\<close> of nanoseconds.
\<close>

type_synonym go_int = "64 word"
type_synonym int64 = "64 word"
type_synonym time_Time = int
type_synonym time_Duration = "64 word"

definition zero_Time :: time_Time where
  "zero_Time = 0"

text \<open>\<^verbatim>\<open>t.Add(d)\<close>: the instant \<open>d\<close> nanoseconds after \<open>t\<close> (before it when \<open>d\<close> is negative).\<close>

definition Time_Add :: "time_Time \<Rightarrow> time_Duration \<Rightarrow> time_Time" where
  "Time_Add t d = t + sint d"

text \<open>
  Go's \<^verbatim>\<open>error\<close> interface: the two sentinel errors of the services and the errors
  built by \<^verbatim>\<open>fmt.Errorf\<close>, kept as the format string with its arguments. The value
  \<^verbatim>\<open>nil\<close> of an \<^verbatim>\<open>error\<close> is \<open>None\<close> of \<open>error option\<close>.
\<close>

datatype error =
    ErrNotFound
  | ErrBackendException
  | Errorf string "string list"

text \<open>
  Modelled from the spec: the declarations of \<^verbatim>\<open>services.Model\<close>,
  \<^verbatim>\<open>services.Vulnerability\<close> and \<^verbatim>\<open>services.VulnerabilityNotification\<close> are
  not among the sources. A Model is the numeric surrogate key; a Vulnerability embeds a
  Model and carries its detail and the list of layers that introduce it; a notification
  embeds a Model and carries its name, its three timestamps and pointers to the old and
  the new vulnerability (\<open>None\<close> is the \<^verbatim>\<open>nil\<close> pointer).
\<close>

record Model =
  ID :: go_int

record Vulnerability = Model +
  VulnerabilityName :: string
  Namespace :: string
  Description :: string
  Link :: string
  Severity :: string
  FixedIn :: "(string \<times> string) list"
  LayersIntroducingVulnerability :: "string list"

record VulnerabilityNotification = Model +
  Name :: string
  Created :: time_Time
  Notified :: time_Time
  Deleted :: time_Time
  OldVulnerability :: "Vulnerability option"
  NewVulnerability :: "Vulnerability option"

text \<open>The composite literal \<^verbatim>\<open>services.Vulnerability{Model: services.Model{id}}\<close>:
  every field but the Model has its zero value.\<close>

definition Vulnerability_of_Model :: "go_int \<Rightarrow> Vulnerability" where
  "Vulnerability_of_Model i =
     \<lparr>ID = i, VulnerabilityName = [], Namespace = [], Description = [], Link = [],
      Severity = [], FixedIn = [], LayersIntroducingVulnerability = []\<rparr>"

text \<open>The zero value \<^verbatim>\<open>services.VulnerabilityNotification{}\<close>.\<close>

definition zero_VulnerabilityNotification :: VulnerabilityNotification where
  "zero_VulnerabilityNotification =
     \<lparr>ID = 0, Name = [], Created = zero_Time, Notified = zero_Time, Deleted = zero_Time,
      OldVulnerability = None, NewVulnerability = None\<rparr>"

section \<open>Package notifications: the Null service\<close>

text \<open>The struct \<^verbatim>\<open>Null\<close> has no field; each method ignores its receiver.\<close>

datatype Null = Null

definition Null_Ping :: "Null \<Rightarrow> bool" where
  "Null_Ping n = True"

definition Null_Close :: "Null \<Rightarrow> unit" where
  "Null_Close n = ()"

definition Null_GetAvailableNotification ::
  "Null \<Rightarrow> time_Duration \<Rightarrow> VulnerabilityNotification \<times> error option" where
  "Null_GetAvailableNotification n renotifyInterval =
     (zero_VulnerabilityNotification, Some ErrBackendException)"

definition Null_GetNotification ::
  "Null \<Rightarrow> string \<Rightarrow> VulnerabilityNotification \<times> error option" where
  "Null_GetNotification n name = (zero_VulnerabilityNotification, Some ErrBackendException)"

definition Null_SetNotificationNotified :: "Null \<Rightarrow> string \<Rightarrow> error option" where
  "Null_SetNotificationNotified n name = Some ErrBackendException"

definition Null_DeleteNotification :: "Null \<Rightarrow> string \<Rightarrow> error option" where
  "Null_DeleteNotification n name = Some ErrBackendException"

definition Null_CreateNotification :: "Null \<Rightarrow> Model \<Rightarrow> Model \<Rightarrow> error option" where
  "Null_CreateNotification n oldVulnerability newVulnerability = None"

section \<open>Package notifications: the driver registry\<close>

text \<open>
  Modelled from the spec: the declaration of \<^verbatim>\<open>config.RegistrableComponentConfig\<close>
  is not among the sources; \<^verbatim>\<open>Open\<close> reads its field \<^verbatim>\<open>Type\<close> only.
\<close>

record RegistrableComponentConfig =
  Type :: string
  Options :: "(string \<times> string) list"

text \<open>
  A Driver builds a Service from a configuration and returns it with an error; \<open>'s\<close> is
  the type of the services, and \<open>None\<close> the \<^verbatim>\<open>nil\<close> interface value. The package
  variable \<^verbatim>\<open>notificationDrivers\<close> is a map from names to Drivers: \<^verbatim>\<open>Register\<close>
  takes it and returns it updated. A \<^verbatim>\<open>panic\<close> is the left result, with its message. A
  Driver argument is a function value, which may be \<^verbatim>\<open>nil\<close> (\<open>None\<close>).
\<close>

type_synonym 's Driver = "RegistrableComponentConfig \<Rightarrow> 's option \<times> error option"

datatype panic = Panic string

definition Register ::
  "string \<Rightarrow> 's Driver option \<Rightarrow> (string \<rightharpoonup> 's Driver) \<Rightarrow> panic + (string \<rightharpoonup> 's Driver)" where
  "Register name driver notificationDrivers =
     (case driver of
        None \<Rightarrow> Inl (Panic ''notifications: could not register nil Driver'')
      | Some d \<Rightarrow>
          (case notificationDrivers name of
             Some dup \<Rightarrow> Inl (Panic (''notifications: could not register duplicate Driver: '' @ name))
           | None \<Rightarrow> Inr (notificationDrivers(name \<mapsto> d))))"

definition Open ::
  "RegistrableComponentConfig \<Rightarrow> (string \<rightharpoonup> 's Driver) \<Rightarrow> 's option \<times> error option" where
  "Open cfg notificationDrivers =
     (case notificationDrivers (Type cfg) of
        None \<Rightarrow>
          (None,
           Some (Errorf ''notifications: unknown Driver %q (forgotten configuration or import?)''
                   [Type cfg]))
      | Some driver \<Rightarrow> driver cfg)"

text \<open>A Driver to register in the examples: it opens the Null service.\<close>

definition NullDriver :: "Null Driver" where
  "NullDriver cfg = (Some Null, None)"

section \<open>Package pgsql: the table and its statements\<close>

text \<open>
  An error of \<^verbatim>\<open>database/sql\<close>: \<^verbatim>\<open>sql.ErrNoRows\<close>, which \<^verbatim>\<open>Scan\<close> returns for
  a query without a result row, or an error of the driver or of the connection, with its
  message.
\<close>

datatype sql_error = ErrNoRows | DriverError string

text \<open>\<^verbatim>\<open>sql.NullInt64\<close>; as a statement's argument it is NULL unless \<^verbatim>\<open>Valid\<close>, and
  scanning a column into it sets \<^verbatim>\<open>Valid\<close> unless the column is NULL.\<close>

record sql_NullInt64 =
  Int64 :: int64
  Valid :: bool

definition NullInt64_Value :: "sql_NullInt64 \<Rightarrow> int64 option" where
  "NullInt64_Value n = (if Valid n then Some (Int64 n) else None)"

definition NullInt64_Scan :: "int64 option \<Rightarrow> sql_NullInt64" where
  "NullInt64_Scan v =
     (case v of None \<Rightarrow> \<lparr>Int64 = 0, Valid = False\<rparr> | Some i \<Rightarrow> \<lparr>Int64 = i, Valid = True\<rparr>)"

text \<open>Scanning a timestamp column into a \<^verbatim>\<open>zero.Time\<close> and reading its field
  \<^verbatim>\<open>Time\<close>: NULL gives the zero Time.\<close>

definition zero_Time_Scan :: "time_Time option \<Rightarrow> time_Time" where
  "zero_Time_Scan v = (case v of None \<Rightarrow> zero_Time | Some t \<Rightarrow> t)"

text \<open>
  Modelled from the spec: the table of notifications and the five SQL statements
  (\<^verbatim>\<open>insertNotification\<close>, \<^verbatim>\<open>searchNotificationAvailable\<close>, \<^verbatim>\<open>searchNotification\<close>,
  \<^verbatim>\<open>updatedNotificationNotified\<close>, \<^verbatim>\<open>removeNotification\<close>) are constants that are not
  among the sources. A row has the fields of the spec's data model: the surrogate key the
  store assigns, the unique name, the creation time, and the optional notified and deleted
  times and old and new vulnerability references (\<open>None\<close> is NULL). The handle holds the
  table, the next key, and the failure (connectivity, timeout), if any, that the
  connection answers every statement with.
\<close>

record notification_row =
  row_id :: go_int
  name :: string
  created_at :: "time_Time option"
  notified_at :: "time_Time option"
  deleted_at :: "time_Time option"
  old_vulnerability_id :: "int64 option"
  new_vulnerability_id :: "int64 option"

record pgSQL =
  Vulnerability_Notification :: "notification_row list"
  next_id :: go_int
  fault :: "string option"

text \<open>\<^verbatim>\<open>sql.Result\<close>: \<^verbatim>\<open>RowsAffected()\<close> returns the count of rows the statement
  changed, or an error.\<close>

datatype Result = Result "sql_error + int"

fun RowsAffected :: "Result \<Rightarrow> sql_error + int" where
  "RowsAffected (Result r) = r"

text \<open>
  Modelled from the spec: \<^verbatim>\<open>insertNotification\<close> inserts one row with the given name
  and references, created now, neither notified nor deleted; the name is unique in the
  table, so a name already there is a constraint violation. \<open>now\<close> is the clock's reading
  (\<^verbatim>\<open>CURRENT_TIMESTAMP\<close>).
\<close>

definition Exec_insertNotification ::
  "time_Time \<Rightarrow> string \<Rightarrow> sql_NullInt64 \<Rightarrow> sql_NullInt64 \<Rightarrow> pgSQL \<Rightarrow> (sql_error + Result) \<times> pgSQL" where
  "Exec_insertNotification now uuid oldID newID db =
     (case fault db of
        Some msg \<Rightarrow> (Inl (DriverError msg), db)
      | None \<Rightarrow>
          if uuid \<in> set (map name (Vulnerability_Notification db))
          then (Inl (DriverError ''pq: duplicate key value violates unique constraint''), db)
          else (Inr (Result (Inr 1)),
                db\<lparr>Vulnerability_Notification :=
                      Vulnerability_Notification db @
                        [\<lparr>row_id = next_id db, name = uuid, created_at = Some now,
                          notified_at = None, deleted_at = None,
                          old_vulnerability_id = NullInt64_Value oldID,
                          new_vulnerability_id = NullInt64_Value newID\<rparr>],
                    next_id := next_id db + 1\<rparr>))"

text \<open>
  Modelled from the spec: \<^verbatim>\<open>updatedNotificationNotified\<close> sets \<open>Notified = now\<close> for
  the row with this name.
\<close>

definition Exec_updatedNotificationNotified ::
  "time_Time \<Rightarrow> string \<Rightarrow> pgSQL \<Rightarrow> (sql_error + Result) \<times> pgSQL" where
  "Exec_updatedNotificationNotified now n db =
     (case fault db of
        Some msg \<Rightarrow> (Inl (DriverError msg), db)
      | None \<Rightarrow>
          (Inr (Result (Inr (int (length (filter (\<lambda>r. name r = n) (Vulnerability_Notification db)))))),
           db\<lparr>Vulnerability_Notification :=
                 map (\<lambda>r. if name r = n then r\<lparr>notified_at := Some now\<rparr> else r)
                   (Vulnerability_Notification db)\<rparr>))"

text \<open>
  Modelled from the spec: \<^verbatim>\<open>removeNotification\<close> sets \<open>Deleted = now\<close>; its predicate
  for "deletable" is the name and excludes rows that are deleted already.
\<close>

definition deletable :: "string \<Rightarrow> notification_row \<Rightarrow> bool" where
  "deletable n r = (name r = n \<and> deleted_at r = None)"

definition Exec_removeNotification ::
  "time_Time \<Rightarrow> string \<Rightarrow> pgSQL \<Rightarrow> (sql_error + Result) \<times> pgSQL" where
  "Exec_removeNotification now n db =
     (case fault db of
        Some msg \<Rightarrow> (Inl (DriverError msg), db)
      | None \<Rightarrow>
          (Inr (Result (Inr (int (length (filter (deletable n) (Vulnerability_Notification db)))))),
           db\<lparr>Vulnerability_Notification :=
                 map (\<lambda>r. if deletable n r then r\<lparr>deleted_at := Some now\<rparr> else r)
                   (Vulnerability_Notification db)\<rparr>))"

text \<open>
  The result of \<^verbatim>\<open>QueryRow\<close>: an error that \<^verbatim>\<open>Scan\<close> will return, or the columns of
  the first result row. \<^verbatim>\<open>searchNotificationAvailable\<close> selects five columns,
  \<^verbatim>\<open>searchNotification\<close> seven.
\<close>

datatype columns =
    Columns5 go_int string "time_Time option" "time_Time option" "time_Time option"
  | Columns7 go_int string "time_Time option" "time_Time option" "time_Time option"
      "int64 option" "int64 option"

type_synonym Row = "sql_error + columns"

text \<open>
  Modelled from the spec: \<^verbatim>\<open>searchNotificationAvailable\<close> selects one row that is not
  deleted and is either not notified or notified before the given instant. Which of the
  qualifying rows it is, the spec leaves to the store: \<open>pick\<close> is the store's choice. The
  statement changes nothing.
\<close>

definition available :: "time_Time \<Rightarrow> notification_row \<Rightarrow> bool" where
  "available beforeT r =
     (deleted_at r = None \<and> (case notified_at r of None \<Rightarrow> True | Some t \<Rightarrow> t < beforeT))"

definition QueryRow_searchNotificationAvailable ::
  "nat \<Rightarrow> time_Time \<Rightarrow> pgSQL \<Rightarrow> Row \<times> pgSQL" where
  "QueryRow_searchNotificationAvailable pick beforeT db =
     (case fault db of
        Some msg \<Rightarrow> (Inl (DriverError msg), db)
      | None \<Rightarrow>
          (case filter (available beforeT) (Vulnerability_Notification db) of
             [] \<Rightarrow> (Inl ErrNoRows, db)
           | c # cs \<Rightarrow>
               (let r = (c # cs) ! (pick mod length (c # cs))
                in (Inr (Columns5 (row_id r) (name r) (created_at r) (notified_at r) (deleted_at r)),
                    db))))"

text \<open>
  Modelled from the spec: \<^verbatim>\<open>searchNotification\<close> selects the row with this name by
  exact match, whether it is deleted or notified or not. The statement changes nothing.
\<close>

definition QueryRow_searchNotification :: "string \<Rightarrow> pgSQL \<Rightarrow> Row \<times> pgSQL" where
  "QueryRow_searchNotification n db =
     (case fault db of
        Some msg \<Rightarrow> (Inl (DriverError msg), db)
      | None \<Rightarrow>
          (case find (\<lambda>r. name r = n) (Vulnerability_Notification db) of
             None \<Rightarrow> (Inl ErrNoRows, db)
           | Some r \<Rightarrow>
               (Inr (Columns7 (row_id r) (name r) (created_at r) (notified_at r) (deleted_at r)
                       (old_vulnerability_id r) (new_vulnerability_id r)),
                db)))"

text \<open>
  Modelled from the spec: \<^verbatim>\<open>handleError\<close> is not among the sources. No error stays no
  error; a query without a result row is \<^verbatim>\<open>NotFound\<close>; any other failure of the
  persistence layer is \<^verbatim>\<open>BackendException\<close>.
\<close>

fun handleError :: "string \<Rightarrow> sql_error option \<Rightarrow> error option" where
  "handleError desc None = None"
| "handleError desc (Some ErrNoRows) = Some ErrNotFound"
| "handleError desc (Some (DriverError msg)) = Some ErrBackendException"

section \<open>Package pgsql: the notification store\<close>

text \<open>
  Each method takes the handle and returns it with its results. \<open>now\<close> is the reading of
  the clock during the call, and \<open>uuid\<close> the result of \<^verbatim>\<open>uuid.New()\<close>. The deferred
  \<^verbatim>\<open>observeQueryTime\<close> records a metric and has no part in the results.
\<close>

definition CreateNotification ::
  "time_Time \<Rightarrow> string \<Rightarrow> Model \<Rightarrow> Model \<Rightarrow> pgSQL \<Rightarrow> error option \<times> pgSQL" where
  "CreateNotification now uuid oldVulnerability newVulnerability db =
     (let oldVulnerabilityNullableID =
            \<lparr>Int64 = scast (ID oldVulnerability), Valid = (ID oldVulnerability \<noteq> 0)\<rparr>;
          newVulnerabilityNullableID =
            \<lparr>Int64 = scast (ID newVulnerability), Valid = (ID newVulnerability \<noteq> 0)\<rparr>
      in case Exec_insertNotification now uuid oldVulnerabilityNullableID
                newVulnerabilityNullableID db of
           (Inl err, db') \<Rightarrow> (handleError ''CreateNotification'' (Some err), db')
         | (Inr res, db') \<Rightarrow> (None, db'))"

text \<open>\<^verbatim>\<open>row.Scan\<close> with five and with seven destinations; the destinations that are not
  scanned keep their zero values.\<close>

type_synonym scanned =
  "go_int \<times> string \<times> time_Time \<times> time_Time \<times> time_Time \<times> sql_NullInt64 \<times> sql_NullInt64"

fun Scan5 :: "Row \<Rightarrow> sql_error + scanned" where
  "Scan5 (Inl err) = Inl err"
| "Scan5 (Inr (Columns5 i n c t d)) =
     Inr (i, n, zero_Time_Scan c, zero_Time_Scan t, zero_Time_Scan d,
          \<lparr>Int64 = 0, Valid = False\<rparr>, \<lparr>Int64 = 0, Valid = False\<rparr>)"
| "Scan5 (Inr (Columns7 i n c t d ov nv)) =
     Inl (DriverError ''sql: expected 7 destination arguments in Scan, not 5'')"

fun Scan7 :: "Row \<Rightarrow> sql_error + scanned" where
  "Scan7 (Inl err) = Inl err"
| "Scan7 (Inr (Columns7 i n c t d ov nv)) =
     Inr (i, n, zero_Time_Scan c, zero_Time_Scan t, zero_Time_Scan d,
          NullInt64_Scan ov, NullInt64_Scan nv)"
| "Scan7 (Inr (Columns5 i n c t d)) =
     Inl (DriverError ''sql: expected 5 destination arguments in Scan, not 7'')"

definition scanNotification :: "Row \<Rightarrow> bool \<Rightarrow> VulnerabilityNotification \<times> sql_error option" where
  "scanNotification row hasVulns =
     (case (if hasVulns then Scan7 row else Scan5 row) of
        Inl err \<Rightarrow> (zero_VulnerabilityNotification, Some err)
      | Inr (i, n, created, notified, deleted, oldVulnerabilityNullableID,
             newVulnerabilityNullableID) \<Rightarrow>
          (let notification =
                 \<lparr>ID = i, Name = n, Created = created, Notified = notified, Deleted = deleted,
                  OldVulnerability = None, NewVulnerability = None\<rparr>
           in if hasVulns
              then (notification
                      \<lparr>OldVulnerability :=
                         (if Valid oldVulnerabilityNullableID
                          then Some (Vulnerability_of_Model (scast (Int64 oldVulnerabilityNullableID)))
                          else None),
                       NewVulnerability :=
                         (if Valid newVulnerabilityNullableID
                          then Some (Vulnerability_of_Model (scast (Int64 newVulnerabilityNullableID)))
                          else None)\<rparr>,
                    None)
              else (notification, None)))"

definition GetAvailableNotification ::
  "time_Time \<Rightarrow> nat \<Rightarrow> time_Duration \<Rightarrow> pgSQL \<Rightarrow>
     (VulnerabilityNotification \<times> error option) \<times> pgSQL" where
  "GetAvailableNotification now pick renotifyInterval db =
     (let beforeT = Time_Add now (- renotifyInterval);
          (row, db') = QueryRow_searchNotificationAvailable pick beforeT db;
          (notification, err) = scanNotification row False
      in ((notification, handleError ''searchNotificationAvailable'' err), db'))"

definition GetNotification ::
  "string \<Rightarrow> pgSQL \<Rightarrow> (VulnerabilityNotification \<times> error option) \<times> pgSQL" where
  "GetNotification n db =
     (let (row, db') = QueryRow_searchNotification n db;
          (notification, err) = scanNotification row True
      in if err \<noteq> None
         then ((notification, handleError ''searchNotification'' err), db')
         else ((notification, None), db'))"

definition SetNotificationNotified :: "time_Time \<Rightarrow> string \<Rightarrow> pgSQL \<Rightarrow> error option \<times> pgSQL" where
  "SetNotificationNotified now n db =
     (case Exec_updatedNotificationNotified now n db of
        (Inl err, db') \<Rightarrow> (handleError ''updatedNotificationNotified'' (Some err), db')
      | (Inr res, db') \<Rightarrow> (None, db'))"

definition DeleteNotification :: "time_Time \<Rightarrow> string \<Rightarrow> pgSQL \<Rightarrow> error option \<times> pgSQL" where
  "DeleteNotification now n db =
     (case Exec_removeNotification now n db of
        (Inl err, db') \<Rightarrow> (handleError ''removeNotification'' (Some err), db')
      | (Inr result, db') \<Rightarrow>
          (case RowsAffected result of
             Inl err \<Rightarrow> (handleError ''removeNotification.RowsAffected()'' (Some err), db')
           | Inr affected \<Rightarrow>
               if affected \<le> 0 then (Some ErrNotFound, db') else (None, db')))"

text \<open>An empty store whose connection works, to start the examples from.\<close>

definition db0 :: pgSQL where
  "db0 = \<lparr>Vulnerability_Notification = [], next_id = 1, fault = None\<rparr>"

text \<open>A store with two rows: the first is neither notified nor deleted, the second is
  both.\<close>

definition db1 :: pgSQL where
  "db1 = \<lparr>Vulnerability_Notification =
            [\<lparr>row_id = 1, name = ''n1'', created_at = Some 100, notified_at = None,
              deleted_at = None, old_vulnerability_id = None, new_vulnerability_id = Some 7\<rparr>,
             \<lparr>row_id = 2, name = ''n2'', created_at = Some 200, notified_at = Some 300,
              deleted_at = Some 400, old_vulnerability_id = Some 7, new_vulnerability_id = None\<rparr>],
          next_id = 3, fault = None\<rparr>"

text \<open>The notification that scanNotification builds from the five columns of a row: its
  scalar fields, and no vulnerability.\<close>

abbreviation scalar_fields :: "notification_row \<Rightarrow> VulnerabilityNotification" where
  "scalar_fields r \<equiv>
     \<lparr>ID = row_id r, Name = name r, Created = zero_Time_Scan (created_at r),
      Notified = zero_Time_Scan (notified_at r), Deleted = zero_Time_Scan (deleted_at r),
      OldVulnerability = None, NewVulnerability = None\<rparr>"

section \<open>The Null service\<close>

text \<open>
  C5: the Null implementation returns ErrBackendException from GetAvailableNotification,
  GetNotification, SetNotificationNotified and DeleteNotification, whatever the arguments;
  CreateNotification returns nil whatever the two Models are; Ping returns true and Close
  returns.
\<close>

theorem Null_service_results:
  "snd (Null_GetAvailableNotification n d) = Some ErrBackendException
   \<and> snd (Null_GetNotification n nm) = Some ErrBackendException
   \<and> Null_SetNotificationNotified n nm = Some ErrBackendException
   \<and> Null_DeleteNotification n nm = Some ErrBackendException
   \<and> Null_CreateNotification n old new = None
   \<and> Null_Ping n = True
   \<and> Null_Close n = ()"
  by (simp add: Null_GetAvailableNotification_def Null_GetNotification_def
      Null_SetNotificationNotified_def Null_DeleteNotification_def
      Null_CreateNotification_def Null_Ping_def)

section \<open>The driver registry\<close>

text \<open>
  C9, as the claim states it, fails: registering the name \<open>pgsql\<close> a second time is a
  panic, not a returned error.
\<close>

theorem Open_unknown_Register_duplicate_counterexample:
  "Register ''pgsql'' (Some NullDriver) Map.empty = Inr [''pgsql'' \<mapsto> NullDriver]
   \<and> Register ''pgsql'' (Some NullDriver) [''pgsql'' \<mapsto> NullDriver]
       = Inl (Panic ''notifications: could not register duplicate Driver: pgsql'')"
  by (simp add: Register_def)

text \<open>
  C9, amended: Open returns no service and the unknown-Driver error for a type that no
  Driver is registered under; Register panics with the duplicate-Driver message for a name
  that is registered already, as its comment says, and registers the Driver under a name
  that is not.
\<close>

theorem Open_unknown_error_Register_duplicate_panic:
  "(drivers (Type cfg) = None \<longrightarrow>
      Open cfg drivers =
        (None,
         Some (Errorf ''notifications: unknown Driver %q (forgotten configuration or import?)''
                 [Type cfg])))
   \<and> (drivers' nm = Some d' \<longrightarrow>
        Register nm (Some d) drivers' =
          Inl (Panic (''notifications: could not register duplicate Driver: '' @ nm)))
   \<and> (drivers'' nm' = None \<longrightarrow>
        Register nm' (Some d) drivers'' = Inr (drivers''(nm' \<mapsto> d)))"
  by (simp add: Open_def Register_def)

theorem Open_unknown_error_Register_duplicate_panic_witness:
  "[''pgsql'' \<mapsto> NullDriver] (Type \<lparr>Type = ''redis'', Options = []\<rparr>) = None
   \<and> Open \<lparr>Type = ''redis'', Options = []\<rparr> [''pgsql'' \<mapsto> NullDriver] =
        (None,
         Some (Errorf ''notifications: unknown Driver %q (forgotten configuration or import?)''
                 [''redis'']))
   \<and> [''pgsql'' \<mapsto> NullDriver] ''pgsql'' = Some NullDriver
   \<and> Register ''pgsql'' (Some NullDriver) [''pgsql'' \<mapsto> NullDriver] =
        Inl (Panic ''notifications: could not register duplicate Driver: pgsql'')
   \<and> (Map.empty :: string \<rightharpoonup> Null Driver) ''pgsql'' = None
   \<and> Register ''pgsql'' (Some NullDriver) Map.empty = Inr [''pgsql'' \<mapsto> NullDriver]"
  using Open_unknown_error_Register_duplicate_panic
    [of "[''pgsql'' \<mapsto> NullDriver]" "\<lparr>Type = ''redis'', Options = []\<rparr>"
        "[''pgsql'' \<mapsto> NullDriver]" "''pgsql''" NullDriver NullDriver
        Map.empty "''pgsql''"]
  by simp

section \<open>Creating a notification\<close>

text \<open>What CreateNotification returns: on a working connection with a name that is not in
  the table, on a failing connection, and with a name that is in the table.\<close>

lemma CreateNotification_result:
  assumes "fault db = None" and "uuid \<notin> set (map name (Vulnerability_Notification db))"
  shows "CreateNotification now uuid old new db =
     (None,
      db\<lparr>Vulnerability_Notification :=
           Vulnerability_Notification db @
             [\<lparr>row_id = next_id db, name = uuid, created_at = Some now,
               notified_at = None, deleted_at = None,
               old_vulnerability_id = (if ID old = 0 then None else Some (ID old)),
               new_vulnerability_id = (if ID new = 0 then None else Some (ID new))\<rparr>],
         next_id := next_id db + 1\<rparr>)"
  using assms
  by (simp add: CreateNotification_def Exec_insertNotification_def NullInt64_Value_def)

lemma CreateNotification_fault:
  assumes "fault db = Some msg"
  shows "CreateNotification now uuid old new db = (Some ErrBackendException, db)"
  using assms
  by (simp add: CreateNotification_def Exec_insertNotification_def)

lemma CreateNotification_duplicate:
  assumes "fault db = None" and "uuid \<in> set (map name (Vulnerability_Notification db))"
  shows "CreateNotification now uuid old new db = (Some ErrBackendException, db)"
  using assms
  by (simp add: CreateNotification_def Exec_insertNotification_def)

text \<open>
  C6: for every pair of Models, on a working connection and with a generated name that no
  row has, CreateNotification returns nil and appends exactly one row: its name is the
  generated name, whatever the Models are, it is created now, and it is neither notified
  nor deleted. A failing connection or a name that a row has already is a
  BackendException, and the table stays as it was. Whether the call succeeds does not
  depend on the two Models: no vulnerability is looked up.
\<close>

theorem CreateNotification_inserts_row:
  "(fault db = None \<and> uuid \<notin> set (map name (Vulnerability_Notification db)) \<longrightarrow>
      CreateNotification now uuid old new db =
        (None,
         db\<lparr>Vulnerability_Notification :=
              Vulnerability_Notification db @
                [\<lparr>row_id = next_id db, name = uuid, created_at = Some now,
                  notified_at = None, deleted_at = None,
                  old_vulnerability_id = (if ID old = 0 then None else Some (ID old)),
                  new_vulnerability_id = (if ID new = 0 then None else Some (ID new))\<rparr>],
            next_id := next_id db + 1\<rparr>))
   \<and> (fault db \<noteq> None \<or> uuid \<in> set (map name (Vulnerability_Notification db)) \<longrightarrow>
        CreateNotification now uuid old new db = (Some ErrBackendException, db))
   \<and> fst (CreateNotification now uuid old new db) = fst (CreateNotification now uuid old' new' db)"
proof -
  have ko: "CreateNotification now uuid o1 n1 db = (Some ErrBackendException, db)"
    if "fault db \<noteq> None \<or> uuid \<in> set (map name (Vulnerability_Notification db))" for o1 n1
  proof (cases "fault db")
    case None
    with that show ?thesis by (simp add: CreateNotification_duplicate)
  next
    case (Some msg)
    then show ?thesis by (rule CreateNotification_fault)
  qed
  have same: "fst (CreateNotification now uuid old new db) =
      fst (CreateNotification now uuid old' new' db)"
  proof (cases "fault db = None \<and> uuid \<notin> set (map name (Vulnerability_Notification db))")
    case True
    then show ?thesis by (simp add: CreateNotification_result)
  next
    case False
    then have "fault db \<noteq> None \<or> uuid \<in> set (map name (Vulnerability_Notification db))"
      by simp
    then show ?thesis by (simp only: ko)
  qed
  show ?thesis
    using ko same CreateNotification_result [of db uuid now old new] by blast
qed

theorem CreateNotification_inserts_row_witness:
  "fault db0 = None \<and> ''n1'' \<notin> set (map name (Vulnerability_Notification db0))
   \<and> CreateNotification 100 ''n1'' \<lparr>ID = 0\<rparr> \<lparr>ID = 7\<rparr> db0 =
       (None,
        \<lparr>Vulnerability_Notification =
           [\<lparr>row_id = 1, name = ''n1'', created_at = Some 100, notified_at = None,
             deleted_at = None, old_vulnerability_id = None, new_vulnerability_id = Some 7\<rparr>],
         next_id = 2, fault = None\<rparr>)
   \<and> fault (db0\<lparr>fault := Some ''connection refused''\<rparr>) \<noteq> None
   \<and> CreateNotification 100 ''n1'' \<lparr>ID = 0\<rparr> \<lparr>ID = 7\<rparr> (db0\<lparr>fault := Some ''connection refused''\<rparr>) =
       (Some ErrBackendException, db0\<lparr>fault := Some ''connection refused''\<rparr>)"
  using CreateNotification_inserts_row [of db0 "''n1''" 100 "\<lparr>ID = 0\<rparr>" "\<lparr>ID = 7\<rparr>"]
    CreateNotification_inserts_row
      [of "db0\<lparr>fault := Some ''connection refused''\<rparr>" "''n1''" 100 "\<lparr>ID = 0\<rparr>" "\<lparr>ID = 7\<rparr>"]
  by (simp add: db0_def)

text \<open>
  C10: where CreateNotification succeeds, the old (the new) reference of the row it
  stores is NULL exactly when the ID of the old (the new) Model is 0, and is that ID
  otherwise; so two Models of ID 0 are accepted and stored as two absent references, and
  a key 0 is never stored as present.
\<close>

theorem CreateNotification_zero_ID_absent:
  "fault db = None \<and> uuid \<notin> set (map name (Vulnerability_Notification db)) \<longrightarrow>
     fst (CreateNotification now uuid old new db) = None
     \<and> (old_vulnerability_id (last (Vulnerability_Notification
            (snd (CreateNotification now uuid old new db)))) = None \<longleftrightarrow> ID old = 0)
     \<and> (new_vulnerability_id (last (Vulnerability_Notification
            (snd (CreateNotification now uuid old new db)))) = None \<longleftrightarrow> ID new = 0)
     \<and> (ID old \<noteq> 0 \<longrightarrow>
          old_vulnerability_id (last (Vulnerability_Notification
            (snd (CreateNotification now uuid old new db)))) = Some (ID old))
     \<and> (ID new \<noteq> 0 \<longrightarrow>
          new_vulnerability_id (last (Vulnerability_Notification
            (snd (CreateNotification now uuid old new db)))) = Some (ID new))"
  by (simp add: CreateNotification_result)

theorem CreateNotification_zero_ID_absent_witness:
  "fault db0 = None \<and> ''n1'' \<notin> set (map name (Vulnerability_Notification db0))
   \<and> fst (CreateNotification 100 ''n1'' \<lparr>ID = 0\<rparr> \<lparr>ID = 0\<rparr> db0) = None
   \<and> old_vulnerability_id (last (Vulnerability_Notification
        (snd (CreateNotification 100 ''n1'' \<lparr>ID = 0\<rparr> \<lparr>ID = 0\<rparr> db0)))) = None
   \<and> new_vulnerability_id (last (Vulnerability_Notification
        (snd (CreateNotification 100 ''n1'' \<lparr>ID = 0\<rparr> \<lparr>ID = 0\<rparr> db0)))) = None
   \<and> ID \<lparr>ID = 7\<rparr> \<noteq> (0 :: go_int)
   \<and> new_vulnerability_id (last (Vulnerability_Notification
        (snd (CreateNotification 100 ''n1'' \<lparr>ID = 0\<rparr> \<lparr>ID = 7\<rparr> db0)))) = Some 7"
  using CreateNotification_zero_ID_absent [of db0 "''n1''" 100 "\<lparr>ID = 0\<rparr>" "\<lparr>ID = 0\<rparr>"]
    CreateNotification_zero_ID_absent [of db0 "''n1''" 100 "\<lparr>ID = 0\<rparr>" "\<lparr>ID = 7\<rparr>"]
  by (simp add: db0_def)

section \<open>Marking a notification as notified\<close>

text \<open>
  C2, at an input where the code departs from it: on a store without rows,
  SetNotificationNotified of a name returns nil, where DeleteNotification of the same
  name returns ErrNotFound.
\<close>

theorem SetNotificationNotified_unknown_name:
  "SetNotificationNotified 1000 ''ghost'' db0 = (None, db0)
   \<and> DeleteNotification 1000 ''ghost'' db0 = (Some ErrNotFound, db0)"
  by (simp add: db0_def SetNotificationNotified_def Exec_updatedNotificationNotified_def
      DeleteNotification_def Exec_removeNotification_def)

section \<open>Deleting a notification\<close>

text \<open>What DeleteNotification does to the table, and when it finds nothing to delete.\<close>

lemma map_unchanged:
  assumes "\<forall>x\<in>set xs. \<not> P x"
  shows "map (\<lambda>x. if P x then f x else x) xs = xs"
  using assms by (induction xs) simp_all

lemma DeleteNotification_deletes:
  assumes "fault db = None"
    and "r \<in> set (Vulnerability_Notification db)" and "name r = n" and "deleted_at r = None"
  shows "DeleteNotification now n db =
     (None,
      db\<lparr>Vulnerability_Notification :=
           map (\<lambda>r. if name r = n \<and> deleted_at r = None then r\<lparr>deleted_at := Some now\<rparr> else r)
             (Vulnerability_Notification db)\<rparr>)"
proof -
  have "r \<in> set (filter (deletable n) (Vulnerability_Notification db))"
    using assms(2-4) by (simp add: deletable_def)
  then have "filter (deletable n) (Vulnerability_Notification db) \<noteq> []"
    by (metis empty_iff empty_set)
  then have "0 < length (filter (deletable n) (Vulnerability_Notification db))"
    by simp
  with assms(1) show ?thesis
    by (simp add: DeleteNotification_def Exec_removeNotification_def deletable_def)
qed

lemma DeleteNotification_NotFound:
  assumes "fault db = None"
    and "\<forall>r\<in>set (Vulnerability_Notification db). \<not> (name r = n \<and> deleted_at r = None)"
  shows "DeleteNotification now n db = (Some ErrNotFound, db)"
proof -
  have none: "\<forall>r\<in>set (Vulnerability_Notification db). \<not> deletable n r"
    using assms(2) by (simp add: deletable_def)
  then have "filter (deletable n) (Vulnerability_Notification db) = []"
    by (simp add: filter_empty_conv)
  moreover have "map (\<lambda>r. if deletable n r then r\<lparr>deleted_at := Some now\<rparr> else r)
      (Vulnerability_Notification db) = Vulnerability_Notification db"
    using none by (rule map_unchanged)
  ultimately show ?thesis
    using assms(1) by (simp add: DeleteNotification_def Exec_removeNotification_def)
qed

lemma DeleteNotification_fault_kept:
  "fault (snd (DeleteNotification now n db)) = fault db"
  by (simp add: DeleteNotification_def Exec_removeNotification_def
      split: option.split sum.split)

lemma DeleteNotification_rows:
  assumes "fault db = None"
  shows "Vulnerability_Notification (snd (DeleteNotification now n db)) =
     map (\<lambda>r. if deletable n r then r\<lparr>deleted_at := Some now\<rparr> else r)
       (Vulnerability_Notification db)"
  using assms
  by (simp add: DeleteNotification_def Exec_removeNotification_def)

lemma DeleteNotification_none_left:
  assumes "fault db = None"
  shows "\<forall>r\<in>set (Vulnerability_Notification (snd (DeleteNotification now n db))).
           \<not> (name r = n \<and> deleted_at r = None)"
proof
  fix r'
  assume "r' \<in> set (Vulnerability_Notification (snd (DeleteNotification now n db)))"
  then have "r' \<in> (\<lambda>r. if deletable n r then r\<lparr>deleted_at := Some now\<rparr> else r) `
      set (Vulnerability_Notification db)"
    by (simp only: DeleteNotification_rows [OF assms] set_map)
  then obtain r where r': "r' = (if deletable n r then r\<lparr>deleted_at := Some now\<rparr> else r)"
    by blast
  show "\<not> (name r' = n \<and> deleted_at r' = None)"
  proof (cases "deletable n r")
    case True
    with r' show ?thesis by simp
  next
    case False
    with r' show ?thesis by (simp add: deletable_def)
  qed
qed

text \<open>
  C3: on a working connection, DeleteNotification of a name sets Deleted = now on the
  rows of that name that are not deleted, leaves the other rows as they are, and returns
  nil when there is such a row; when no row of that name is live (no row matches, zero
  rows affected) it returns ErrNotFound and changes nothing, so it does for a name that no
  row has, and a second DeleteNotification of the same name returns ErrNotFound.
\<close>

theorem DeleteNotification_sets_Deleted_or_NotFound:
  "fault db = None \<longrightarrow>
     (r \<in> set (Vulnerability_Notification db) \<and> name r = n \<and> deleted_at r = None \<longrightarrow>
        DeleteNotification now n db =
          (None,
           db\<lparr>Vulnerability_Notification :=
                map (\<lambda>r. if name r = n \<and> deleted_at r = None
                          then r\<lparr>deleted_at := Some now\<rparr> else r)
                  (Vulnerability_Notification db)\<rparr>))
     \<and> ((\<forall>r\<in>set (Vulnerability_Notification db). \<not> (name r = n \<and> deleted_at r = None)) \<longrightarrow>
          DeleteNotification now n db = (Some ErrNotFound, db))
     \<and> (n \<notin> set (map name (Vulnerability_Notification db)) \<longrightarrow>
          DeleteNotification now n db = (Some ErrNotFound, db))
     \<and> fst (DeleteNotification now' n (snd (DeleteNotification now n db))) = Some ErrNotFound"
proof (intro impI conjI; (elim conjE)?)
  assume "fault db = None" and "r \<in> set (Vulnerability_Notification db)"
    and "name r = n" and "deleted_at r = None"
  then show "DeleteNotification now n db =
          (None,
           db\<lparr>Vulnerability_Notification :=
                map (\<lambda>r. if name r = n \<and> deleted_at r = None
                          then r\<lparr>deleted_at := Some now\<rparr> else r)
                  (Vulnerability_Notification db)\<rparr>)"
    by (rule DeleteNotification_deletes)
next
  assume "fault db = None"
    and "\<forall>r\<in>set (Vulnerability_Notification db). \<not> (name r = n \<and> deleted_at r = None)"
  then show "DeleteNotification now n db = (Some ErrNotFound, db)"
    by (rule DeleteNotification_NotFound)
next
  assume f: "fault db = None" and "n \<notin> set (map name (Vulnerability_Notification db))"
  then have "\<forall>r\<in>set (Vulnerability_Notification db). \<not> (name r = n \<and> deleted_at r = None)"
    by auto
  with f show "DeleteNotification now n db = (Some ErrNotFound, db)"
    by (rule DeleteNotification_NotFound)
next
  assume f: "fault db = None"
  then have "fault (snd (DeleteNotification now n db)) = None"
    by (simp add: DeleteNotification_fault_kept)
  then have "DeleteNotification now' n (snd (DeleteNotification now n db)) =
      (Some ErrNotFound, snd (DeleteNotification now n db))"
    using DeleteNotification_none_left [OF f] by (rule DeleteNotification_NotFound)
  then show "fst (DeleteNotification now' n (snd (DeleteNotification now n db))) =
      Some ErrNotFound"
    by simp
qed

theorem DeleteNotification_sets_Deleted_or_NotFound_witness:
  "fault db1 = None
   \<and> hd (Vulnerability_Notification db1) \<in> set (Vulnerability_Notification db1)
   \<and> name (hd (Vulnerability_Notification db1)) = ''n1''
   \<and> deleted_at (hd (Vulnerability_Notification db1)) = None
   \<and> fst (DeleteNotification 1000 ''n1'' db1) = None
   \<and> map deleted_at (Vulnerability_Notification (snd (DeleteNotification 1000 ''n1'' db1))) =
       [Some 1000, Some 400]
   \<and> fst (DeleteNotification 1001 ''n1'' (snd (DeleteNotification 1000 ''n1'' db1))) =
       Some ErrNotFound
   \<and> ''n3'' \<notin> set (map name (Vulnerability_Notification db1))
   \<and> DeleteNotification 1000 ''n3'' db1 = (Some ErrNotFound, db1)
   \<and> DeleteNotification 1000 ''n2'' db1 = (Some ErrNotFound, db1)"
proof -
  let ?r = "hd (Vulnerability_Notification db1)"
  have h1: "fault db1 = None" and h2: "?r \<in> set (Vulnerability_Notification db1)"
    and h3: "name ?r = ''n1''" and h4: "deleted_at ?r = None"
    and h5: "''n3'' \<notin> set (map name (Vulnerability_Notification db1))"
    and h6: "\<forall>r\<in>set (Vulnerability_Notification db1). \<not> (name r = ''n2'' \<and> deleted_at r = None)"
    by (simp_all add: db1_def)
  from DeleteNotification_sets_Deleted_or_NotFound [of db1 ?r "''n1''" 1000 1001] h1 h2 h3 h4
  have d1: "DeleteNotification 1000 ''n1'' db1 =
      (None,
       db1\<lparr>Vulnerability_Notification :=
             map (\<lambda>r. if name r = ''n1'' \<and> deleted_at r = None
                       then r\<lparr>deleted_at := Some 1000\<rparr> else r)
               (Vulnerability_Notification db1)\<rparr>)"
    and d2: "fst (DeleteNotification 1001 ''n1'' (snd (DeleteNotification 1000 ''n1'' db1))) =
      Some ErrNotFound"
    by blast+
  from DeleteNotification_sets_Deleted_or_NotFound [of db1 ?r "''n3''" 1000 1001] h1 h5
  have d3: "DeleteNotification 1000 ''n3'' db1 = (Some ErrNotFound, db1)"
    by blast
  from DeleteNotification_sets_Deleted_or_NotFound [of db1 ?r "''n2''" 1000 1001] h1 h6
  have d4: "DeleteNotification 1000 ''n2'' db1 = (Some ErrNotFound, db1)"
    by blast
  have rows: "map deleted_at (Vulnerability_Notification (snd (DeleteNotification 1000 ''n1'' db1))) =
      [Some 1000, Some 400]"
    unfolding d1 by (simp add: db1_def)
  have ok: "fst (DeleteNotification 1000 ''n1'' db1) = None"
    unfolding d1 by simp
  from h1 h2 h3 h4 h5 ok rows d2 d3 d4 show ?thesis
    by (intro conjI)
qed

section \<open>Looking a notification up by name\<close>

lemma GetNotification_eq:
  assumes "fault db = None"
  shows "GetNotification n db =
     (case find (\<lambda>r. name r = n) (Vulnerability_Notification db) of
        None \<Rightarrow> ((zero_VulnerabilityNotification, Some ErrNotFound), db)
      | Some r \<Rightarrow>
          ((\<lparr>ID = row_id r, Name = name r, Created = zero_Time_Scan (created_at r),
             Notified = zero_Time_Scan (notified_at r),
             Deleted = zero_Time_Scan (deleted_at r),
             OldVulnerability = map_option Vulnerability_of_Model (old_vulnerability_id r),
             NewVulnerability = map_option Vulnerability_of_Model (new_vulnerability_id r)\<rparr>,
            None), db))"
  using assms
  by (simp add: GetNotification_def QueryRow_searchNotification_def scanNotification_def
      NullInt64_Scan_def split: option.split)

text \<open>
  C7: on a working connection, GetNotification of a name that no row has returns
  ErrNotFound; for a name that a row has it returns, with no error, the notification of
  the (first) row of exactly that name, whatever its notified and deleted times are: the
  scalar fields, and for each vulnerability reference that is not NULL a Vulnerability
  that holds the referenced ID in its Model and nothing else (no detail, no layers).
\<close>

theorem GetNotification_exact_match:
  "fault db = None \<longrightarrow>
     (n \<notin> set (map name (Vulnerability_Notification db)) \<longrightarrow>
        GetNotification n db = ((zero_VulnerabilityNotification, Some ErrNotFound), db))
     \<and> (n \<in> set (map name (Vulnerability_Notification db)) \<longrightarrow>
          (\<exists>r\<in>set (Vulnerability_Notification db).
             name r = n
             \<and> find (\<lambda>r. name r = n) (Vulnerability_Notification db) = Some r
             \<and> GetNotification n db =
                 ((\<lparr>ID = row_id r, Name = n, Created = zero_Time_Scan (created_at r),
                    Notified = zero_Time_Scan (notified_at r),
                    Deleted = zero_Time_Scan (deleted_at r),
                    OldVulnerability =
                      map_option Vulnerability_of_Model (old_vulnerability_id r),
                    NewVulnerability =
                      map_option Vulnerability_of_Model (new_vulnerability_id r)\<rparr>,
                   None), db)))"
proof (intro impI conjI)
  assume f: "fault db = None" and "n \<notin> set (map name (Vulnerability_Notification db))"
  then have "find (\<lambda>r. name r = n) (Vulnerability_Notification db) = None"
    by (auto simp: find_None_iff)
  then show "GetNotification n db = ((zero_VulnerabilityNotification, Some ErrNotFound), db)"
    by (simp add: GetNotification_eq [OF f])
next
  assume f: "fault db = None" and "n \<in> set (map name (Vulnerability_Notification db))"
  then obtain r where r: "find (\<lambda>r. name r = n) (Vulnerability_Notification db) = Some r"
    by (cases "find (\<lambda>r. name r = n) (Vulnerability_Notification db)")
      (auto simp: find_None_iff)
  then have "r \<in> set (Vulnerability_Notification db)" and "name r = n"
    by (auto simp: find_Some_iff)
  with r show "\<exists>r\<in>set (Vulnerability_Notification db).
             name r = n
             \<and> find (\<lambda>r. name r = n) (Vulnerability_Notification db) = Some r
             \<and> GetNotification n db =
                 ((\<lparr>ID = row_id r, Name = n, Created = zero_Time_Scan (created_at r),
                    Notified = zero_Time_Scan (notified_at r),
                    Deleted = zero_Time_Scan (deleted_at r),
                    OldVulnerability =
                      map_option Vulnerability_of_Model (old_vulnerability_id r),
                    NewVulnerability =
                      map_option Vulnerability_of_Model (new_vulnerability_id r)\<rparr>,
                   None), db)"
    by (auto simp: GetNotification_eq [OF f])
qed

theorem GetNotification_exact_match_witness:
  "fault db1 = None
   \<and> ''n2'' \<in> set (map name (Vulnerability_Notification db1))
   \<and> GetNotification ''n2'' db1 =
       ((\<lparr>ID = 2, Name = ''n2'', Created = 200, Notified = 300, Deleted = 400,
          OldVulnerability =
            Some \<lparr>ID = 7, VulnerabilityName = [], Namespace = [], Description = [],
                  Link = [], Severity = [], FixedIn = [],
                  LayersIntroducingVulnerability = []\<rparr>,
          NewVulnerability = None\<rparr>, None), db1)
   \<and> ''n3'' \<notin> set (map name (Vulnerability_Notification db1))
   \<and> GetNotification ''n3'' db1 = ((zero_VulnerabilityNotification, Some ErrNotFound), db1)"
  using GetNotification_exact_match [of db1 "''n2''"] GetNotification_exact_match [of db1 "''n3''"]
  by (auto simp: db1_def zero_Time_Scan_def Vulnerability_of_Model_def)

section \<open>The available notification\<close>

text \<open>Negating a duration other than the least \<^verbatim>\<open>int64\<close> negates its value.\<close>

lemma sint_neg64:
  fixes d :: "64 word"
  assumes "sint d \<noteq> - (2 ^ 63)"
  shows "sint (- d) = - sint d"
proof -
  have "- (2 ^ 63) \<le> sint d" and "sint d < 2 ^ 63"
    using sint_ge [of d] sint_lt [of d] by simp_all
  with assms have "- (2 ^ 63) \<le> - sint d" and "- sint d < 2 ^ 63"
    by arith+
  then show ?thesis
    by (simp add: sint_word_minus signed_take_bit_int_eq_self)
qed

text \<open>What GetAvailableNotification returns, by the rows that qualify at the instant
  \<open>now - renotifyInterval\<close>.\<close>

lemma GetAvailableNotification_eq:
  assumes "fault db = None"
  shows "GetAvailableNotification now pick d db =
     (case filter (available (Time_Add now (- d))) (Vulnerability_Notification db) of
        [] \<Rightarrow> ((zero_VulnerabilityNotification, Some ErrNotFound), db)
      | c # cs \<Rightarrow> ((scalar_fields ((c # cs) ! (pick mod length (c # cs))), None), db))"
  using assms
  by (simp add: GetAvailableNotification_def QueryRow_searchNotificationAvailable_def
      scanNotification_def Let_def split: list.split)

lemma GetAvailableNotification_fault:
  assumes "fault db = Some msg"
  shows "GetAvailableNotification now pick d db =
     ((zero_VulnerabilityNotification, Some ErrBackendException), db)"
  using assms
  by (simp add: GetAvailableNotification_def QueryRow_searchNotificationAvailable_def
      scanNotification_def)

lemma GetAvailableNotification_returns_available:
  assumes "fault db = None" and "snd (fst (GetAvailableNotification now pick d db)) = None"
  shows "\<exists>r\<in>set (Vulnerability_Notification db).
           available (Time_Add now (- d)) r
           \<and> fst (fst (GetAvailableNotification now pick d db)) = scalar_fields r"
proof (cases "filter (available (Time_Add now (- d))) (Vulnerability_Notification db)")
  case Nil
  with assms show ?thesis by (simp add: GetAvailableNotification_eq)
next
  case (Cons c cs)
  define r where "r = (c # cs) ! (pick mod length (c # cs))"
  have "r \<in> set (c # cs)"
    unfolding r_def by (rule nth_mem) simp
  then have "r \<in> set (filter (available (Time_Add now (- d))) (Vulnerability_Notification db))"
    by (simp only: Cons)
  then have "r \<in> set (Vulnerability_Notification db)" and "available (Time_Add now (- d)) r"
    by simp_all
  moreover have "fst (fst (GetAvailableNotification now pick d db)) = scalar_fields r"
    using assms(1) Cons by (simp add: GetAvailableNotification_eq r_def)
  ultimately show ?thesis by blast
qed

lemma GetAvailableNotification_can_return:
  assumes "fault db = None" and "r \<in> set (Vulnerability_Notification db)"
    and "available (Time_Add now (- d)) r"
  shows "\<exists>pick. GetAvailableNotification now pick d db = ((scalar_fields r, None), db)"
proof -
  let ?cs = "filter (available (Time_Add now (- d))) (Vulnerability_Notification db)"
  from assms(2,3) have "r \<in> set ?cs" by simp
  then obtain i where i: "i < length ?cs" "?cs ! i = r"
    by (meson in_set_conv_nth)
  then obtain c cs where cs: "?cs = c # cs"
    by (cases ?cs) auto
  have "GetAvailableNotification now i d db = ((scalar_fields r, None), db)"
    using assms(1) i cs by (simp add: GetAvailableNotification_eq)
  then show ?thesis ..
qed

lemma GetAvailableNotification_succeeds:
  assumes "fault db = None" and "r \<in> set (Vulnerability_Notification db)"
    and "available (Time_Add now (- d)) r"
  shows "snd (fst (GetAvailableNotification now pick d db)) = None"
proof -
  from assms(2,3)
  have "r \<in> set (filter (available (Time_Add now (- d))) (Vulnerability_Notification db))"
    by simp
  then obtain c cs where
    "filter (available (Time_Add now (- d))) (Vulnerability_Notification db) = c # cs"
    by (cases "filter (available (Time_Add now (- d))) (Vulnerability_Notification db)") auto
  with assms(1) show ?thesis by (simp add: GetAvailableNotification_eq)
qed

lemma GetAvailableNotification_NotFound:
  assumes "fault db = None"
    and "\<forall>r\<in>set (Vulnerability_Notification db). \<not> available (Time_Add now (- d)) r"
  shows "GetAvailableNotification now pick d db =
     ((zero_VulnerabilityNotification, Some ErrNotFound), db)"
proof -
  from assms(2)
  have "filter (available (Time_Add now (- d))) (Vulnerability_Notification db) = []"
    by (simp add: filter_empty_conv)
  with assms(1) show ?thesis by (simp add: GetAvailableNotification_eq)
qed

text \<open>After SetNotificationNotified: the rows of the name are notified at that time.\<close>

lemma SetNotificationNotified_result:
  assumes "fault db = None"
  shows "SetNotificationNotified t n db =
     (None,
      db\<lparr>Vulnerability_Notification :=
           map (\<lambda>r. if name r = n then r\<lparr>notified_at := Some t\<rparr> else r)
             (Vulnerability_Notification db)\<rparr>)"
  using assms
  by (simp add: SetNotificationNotified_def Exec_updatedNotificationNotified_def)

lemma available_after_mark:
  assumes "sint d \<noteq> - (2 ^ 63)"
  shows "available (Time_Add now (- d)) (r\<lparr>notified_at := Some t\<rparr>)
           \<longleftrightarrow> deleted_at r = None \<and> sint d < now - t"
  using assms by (auto simp: available_def Time_Add_def sint_neg64)

lemma marked_not_returned:
  assumes "fault db = None" and "sint d \<noteq> - (2 ^ 63)" and "now - t \<le> sint d"
  shows "\<not> (snd (fst (GetAvailableNotification now pick d (snd (SetNotificationNotified t n db)))) = None
           \<and> Name (fst (fst (GetAvailableNotification now pick d
                 (snd (SetNotificationNotified t n db))))) = n)"
proof
  let ?db2 = "snd (SetNotificationNotified t n db)"
  assume a: "snd (fst (GetAvailableNotification now pick d ?db2)) = None
           \<and> Name (fst (fst (GetAvailableNotification now pick d ?db2))) = n"
  have f2: "fault ?db2 = None"
    using assms(1) by (simp add: SetNotificationNotified_result)
  from a have e: "snd (fst (GetAvailableNotification now pick d ?db2)) = None"
    and nm: "Name (fst (fst (GetAvailableNotification now pick d ?db2))) = n"
    by simp_all
  from GetAvailableNotification_returns_available [OF f2 e]
  obtain r' where r'': "r' \<in> set (Vulnerability_Notification ?db2)"
      "available (Time_Add now (- d)) r'"
      "fst (fst (GetAvailableNotification now pick d ?db2)) = scalar_fields r'"
    by blast
  from nm r''(3) have "name r' = n" by simp
  note r' = r''(1,2) this
  from r'(1) obtain r where r: "r \<in> set (Vulnerability_Notification db)"
      "r' = (if name r = n then r\<lparr>notified_at := Some t\<rparr> else r)"
    using assms(1) by (auto simp: SetNotificationNotified_result)
  from r(2) r'(3) have "r' = r\<lparr>notified_at := Some t\<rparr>"
    by (auto split: if_splits)
  with r'(2) have "sint d < now - t"
    using assms(2) by (simp add: available_after_mark)
  with assms(3) show False by simp
qed

lemma marked_returned_again:
  assumes "fault db = None" and "sint d \<noteq> - (2 ^ 63)" and "sint d < now - t"
    and "r \<in> set (Vulnerability_Notification db)" and "name r = n" and "deleted_at r = None"
  shows "snd (fst (GetAvailableNotification now pick d (snd (SetNotificationNotified t n db)))) = None
         \<and> (\<exists>pick'. GetAvailableNotification now pick' d (snd (SetNotificationNotified t n db)) =
               ((scalar_fields (r\<lparr>notified_at := Some t\<rparr>), None),
                snd (SetNotificationNotified t n db)))"
proof -
  let ?db2 = "snd (SetNotificationNotified t n db)"
  have f2: "fault ?db2 = None"
    using assms(1) by (simp add: SetNotificationNotified_result)
  have "(\<lambda>r. if name r = n then r\<lparr>notified_at := Some t\<rparr> else r) r
          \<in> set (Vulnerability_Notification ?db2)"
    using assms(1,4) by (simp add: SetNotificationNotified_result)
  then have mem: "r\<lparr>notified_at := Some t\<rparr> \<in> set (Vulnerability_Notification ?db2)"
    using assms(5) by simp
  have av: "available (Time_Add now (- d)) (r\<lparr>notified_at := Some t\<rparr>)"
    using assms(2,3,6) by (simp add: available_after_mark)
  show ?thesis
    using GetAvailableNotification_succeeds [OF f2 mem av]
      GetAvailableNotification_can_return [OF f2 mem av]
    by simp
qed

text \<open>
  C1, as the claim states it, fails: a notification marked at time 1000 and asked for at
  time 1020 with a renotify interval of 20, when the elapsed time equals the interval, is
  not returned (the only row of the table; the result is ErrNotFound).
\<close>

theorem renotify_at_interval_counterexample:
  "fst (SetNotificationNotified 1000 ''n1'' db1) = None
   \<and> snd (fst (GetAvailableNotification 1020 0 20 (snd (SetNotificationNotified 1000 ''n1'' db1))))
       = Some ErrNotFound"
  by (simp add: db1_def SetNotificationNotified_def Exec_updatedNotificationNotified_def
      GetAvailableNotification_def QueryRow_searchNotificationAvailable_def available_def
      Time_Add_def scanNotification_def)

text \<open>
  C1, amended. On a working connection: a notification that GetAvailableNotification
  returns is a row that qualifies (not deleted, and not notified or notified before
  \<open>now - renotifyInterval\<close>); while a row qualifies the call succeeds, and it returns
  that row for some choice of the store among the qualifying rows; when no row qualifies
  it returns ErrNotFound. Consequently, for an interval \<open>d\<close> other than the least
  \<^verbatim>\<open>int64\<close>, after SetNotificationNotified of a name at time \<open>t\<close> (which succeeds),
  GetAvailableNotification at time \<open>now\<close> does not return that name while
  \<open>now - t \<le> d\<close>, and once \<open>d < now - t\<close> a row of that name that is not deleted
  qualifies again: the call succeeds and returns it for some choice of the store.
\<close>

theorem GetAvailableNotification_renotify_window:
  "fault db = None \<longrightarrow>
     (snd (fst (GetAvailableNotification now pick d db)) = None \<longrightarrow>
        (\<exists>r\<in>set (Vulnerability_Notification db).
           available (Time_Add now (- d)) r
           \<and> fst (fst (GetAvailableNotification now pick d db)) = scalar_fields r))
     \<and> (r \<in> set (Vulnerability_Notification db) \<and> available (Time_Add now (- d)) r \<longrightarrow>
          snd (fst (GetAvailableNotification now pick d db)) = None
          \<and> (\<exists>pick'. GetAvailableNotification now pick' d db = ((scalar_fields r, None), db)))
     \<and> ((\<forall>r\<in>set (Vulnerability_Notification db). \<not> available (Time_Add now (- d)) r) \<longrightarrow>
          GetAvailableNotification now pick d db =
            ((zero_VulnerabilityNotification, Some ErrNotFound), db))
     \<and> fst (SetNotificationNotified t n db) = None
     \<and> (sint d \<noteq> - (2 ^ 63) \<and> now - t \<le> sint d \<longrightarrow>
          \<not> (snd (fst (GetAvailableNotification now pick d
                  (snd (SetNotificationNotified t n db)))) = None
             \<and> Name (fst (fst (GetAvailableNotification now pick d
                  (snd (SetNotificationNotified t n db))))) = n))
     \<and> (sint d \<noteq> - (2 ^ 63) \<and> sint d < now - t
          \<and> r \<in> set (Vulnerability_Notification db) \<and> name r = n \<and> deleted_at r = None \<longrightarrow>
          snd (fst (GetAvailableNotification now pick d
                  (snd (SetNotificationNotified t n db)))) = None
          \<and> (\<exists>pick'. GetAvailableNotification now pick' d (snd (SetNotificationNotified t n db)) =
                ((scalar_fields (r\<lparr>notified_at := Some t\<rparr>), None),
                 snd (SetNotificationNotified t n db))))"
proof (intro impI conjI; (elim conjE)?)
  assume f: "fault db = None"
  show "fst (SetNotificationNotified t n db) = None"
    by (simp add: SetNotificationNotified_result [OF f])
  show "GetAvailableNotification now pick d db =
      ((zero_VulnerabilityNotification, Some ErrNotFound), db)"
    if "\<forall>r\<in>set (Vulnerability_Notification db). \<not> available (Time_Add now (- d)) r"
    using f that by (rule GetAvailableNotification_NotFound)
next
  assume "fault db = None" and "snd (fst (GetAvailableNotification now pick d db)) = None"
  then show "\<exists>r\<in>set (Vulnerability_Notification db).
           available (Time_Add now (- d)) r
           \<and> fst (fst (GetAvailableNotification now pick d db)) = scalar_fields r"
    by (rule GetAvailableNotification_returns_available)
next
  assume "fault db = None" and "r \<in> set (Vulnerability_Notification db)"
    and "available (Time_Add now (- d)) r"
  then show "snd (fst (GetAvailableNotification now pick d db)) = None"
    by (rule GetAvailableNotification_succeeds)
next
  assume "fault db = None" and "r \<in> set (Vulnerability_Notification db)"
    and "available (Time_Add now (- d)) r"
  then show "\<exists>pick'. GetAvailableNotification now pick' d db = ((scalar_fields r, None), db)"
    by (rule GetAvailableNotification_can_return)
next
  assume "fault db = None" and "sint d \<noteq> - (2 ^ 63)" and "now - t \<le> sint d"
  then show "\<not> (snd (fst (GetAvailableNotification now pick d
                  (snd (SetNotificationNotified t n db)))) = None
             \<and> Name (fst (fst (GetAvailableNotification now pick d
                  (snd (SetNotificationNotified t n db))))) = n)"
    by (rule marked_not_returned)
next
  assume a: "fault db = None" "sint d \<noteq> - (2 ^ 63)" "sint d < now - t"
    "r \<in> set (Vulnerability_Notification db)" "name r = n" "deleted_at r = None"
  from marked_returned_again [OF a]
  show "snd (fst (GetAvailableNotification now pick d
                  (snd (SetNotificationNotified t n db)))) = None"
    by simp
  from marked_returned_again [OF a]
  show "\<exists>pick'. GetAvailableNotification now pick' d (snd (SetNotificationNotified t n db)) =
                ((scalar_fields (r\<lparr>notified_at := Some t\<rparr>), None),
                 snd (SetNotificationNotified t n db))"
    by simp
qed

theorem GetAvailableNotification_renotify_window_witness:
  "fault db1 = None
   \<and> sint (20 :: time_Duration) \<noteq> - (2 ^ 63)
   \<and> (1020 :: int) - 1000 \<le> sint (20 :: time_Duration)
   \<and> \<not> (snd (fst (GetAvailableNotification 1020 0 20
              (snd (SetNotificationNotified 1000 ''n1'' db1)))) = None
          \<and> Name (fst (fst (GetAvailableNotification 1020 0 20
              (snd (SetNotificationNotified 1000 ''n1'' db1))))) = ''n1'')
   \<and> sint (20 :: time_Duration) < 1021 - 1000
   \<and> hd (Vulnerability_Notification db1) \<in> set (Vulnerability_Notification db1)
   \<and> name (hd (Vulnerability_Notification db1)) = ''n1''
   \<and> deleted_at (hd (Vulnerability_Notification db1)) = None
   \<and> snd (fst (GetAvailableNotification 1021 0 20
              (snd (SetNotificationNotified 1000 ''n1'' db1)))) = None
   \<and> available (Time_Add 1021 (- 20)) (hd (Vulnerability_Notification db1))
   \<and> snd (fst (GetAvailableNotification 1021 0 20 db1)) = None
   \<and> fst (SetNotificationNotified 1000 ''n1'' db1) = None"
  using GetAvailableNotification_renotify_window
      [of db1 1020 0 20 "hd (Vulnerability_Notification db1)" 1000 "''n1''"]
    GetAvailableNotification_renotify_window
      [of db1 1021 0 20 "hd (Vulnerability_Notification db1)" 1000 "''n1''"]
  by (simp add: db1_def available_def Time_Add_def)

section \<open>The available notification is read only\<close>

lemma GetAvailableNotification_snd:
  "snd (GetAvailableNotification now pick d db) = db"
  by (simp add: GetAvailableNotification_def QueryRow_searchNotificationAvailable_def
      Let_def split: option.split list.split prod.split)

lemma GetAvailableNotification_no_vulnerabilities:
  "OldVulnerability (fst (fst (GetAvailableNotification now pick d db))) = None
   \<and> NewVulnerability (fst (fst (GetAvailableNotification now pick d db))) = None"
proof (cases "fault db")
  case None
  then show ?thesis
    by (simp add: GetAvailableNotification_eq zero_VulnerabilityNotification_def
        split: list.split)
next
  case (Some msg)
  then show ?thesis
    by (simp add: GetAvailableNotification_fault zero_VulnerabilityNotification_def)
qed

lemma GetAvailableNotification_fault_None:
  assumes "snd (fst (GetAvailableNotification now pick d db)) = None"
  shows "fault db = None"
proof (cases "fault db")
  case None
  then show ?thesis .
next
  case (Some msg)
  with assms show ?thesis by (simp add: GetAvailableNotification_fault)
qed

text \<open>
  C8: GetAvailableNotification leaves the store as it was (no row is marked as notified,
  no field of any row changes), and the notification it returns has neither an old nor a
  new vulnerability; when it succeeds, the notification carries the key, Name, Created,
  Notified and Deleted of a row of the table and nothing else.
\<close>

theorem GetAvailableNotification_read_only:
  "snd (GetAvailableNotification now pick d db) = db
   \<and> OldVulnerability (fst (fst (GetAvailableNotification now pick d db))) = None
   \<and> NewVulnerability (fst (fst (GetAvailableNotification now pick d db))) = None
   \<and> (snd (fst (GetAvailableNotification now pick d db)) = None \<longrightarrow>
        (\<exists>r\<in>set (Vulnerability_Notification db).
           fst (fst (GetAvailableNotification now pick d db)) =
             \<lparr>ID = row_id r, Name = name r, Created = zero_Time_Scan (created_at r),
              Notified = zero_Time_Scan (notified_at r),
              Deleted = zero_Time_Scan (deleted_at r),
              OldVulnerability = None, NewVulnerability = None\<rparr>))"
proof (intro conjI impI)
  show "snd (GetAvailableNotification now pick d db) = db"
    by (rule GetAvailableNotification_snd)
  show "OldVulnerability (fst (fst (GetAvailableNotification now pick d db))) = None"
    and "NewVulnerability (fst (fst (GetAvailableNotification now pick d db))) = None"
    using GetAvailableNotification_no_vulnerabilities by simp_all
next
  assume e: "snd (fst (GetAvailableNotification now pick d db)) = None"
  then have "fault db = None"
    by (rule GetAvailableNotification_fault_None)
  from GetAvailableNotification_returns_available [OF this e]
  show "\<exists>r\<in>set (Vulnerability_Notification db).
           fst (fst (GetAvailableNotification now pick d db)) = scalar_fields r"
    by blast
qed

theorem GetAvailableNotification_read_only_witness:
  "snd (GetAvailableNotification 500 0 20 db1) = db1
   \<and> fst (GetAvailableNotification 500 0 20 db1) =
       (\<lparr>ID = 1, Name = ''n1'', Created = 100, Notified = zero_Time, Deleted = zero_Time,
         OldVulnerability = None, NewVulnerability = None\<rparr>, None)
   \<and> notified_at (hd (Vulnerability_Notification
        (snd (GetAvailableNotification 500 0 20 db1)))) = None"
  using GetAvailableNotification_read_only [of 500 0 20 db1]
  by (simp add: db1_def GetAvailableNotification_def QueryRow_searchNotificationAvailable_def
      available_def Time_Add_def scanNotification_def zero_Time_Scan_def)

end
